theory Spec2Isabelle
  imports Complex_Main "HOL-Library.Sublist"
begin

section \<open>Python in depth: a shallow embedding of the demonstration units\<close>

text \<open>
  Each unit of the repository is translated into HOL definitions that compute what the
  Python computes.  Exceptions are values of a sum type (\<open>Inl\<close> carries the exception),
  mutation is explicit state passing, and printing appends a line to an output log.
\<close>

subsection \<open>Numbers and exceptions\<close>

text \<open>
  A Python number is an \<open>int\<close> (unbounded) or a \<open>float\<close>.  A finite float is the real
  number it denotes; the comparisons used here (\<open>==\<close> against an \<open>int\<close>) are exact in
  Python, so nothing of the binary representation is needed.  The infinities and NaN
  are values of their own.
\<close>

datatype pyfloat = Finite real | PosInf | NegInf | NaN

datatype pynum = PyInt int | PyFloat pyfloat

text \<open>
  The exceptions the units raise.  A message built by an f-string is kept as the list of
  its parts (literal text and interpolated values), so that an interpolated value stays
  visible in the exception.  \<open>Exception\<close> stands for any other exception a block may
  raise.  \<open>NotModelled\<close> is not an exception of Python: it marks a behaviour of the
  language that the model leaves out (the rendering of a function object, and
  \<open>object.__str__\<close>, whose result shows an address).
\<close>

datatype part = Text string | Value pynum

datatype py_error =
    ValueError "part list"
  | IndexError string
  | TypeError string
  | AttributeError string
  | NameError string
  | KeyError string
  | StopIteration
  | RuntimeError string "py_error option"
  | Exception string
  | NotModelled string

subsection \<open>Counting callable (\<open>pythonindepth/callable_example.py\<close>)\<close>

text \<open>
  \<open>self._counts\<close> is a \<open>defaultdict(int)\<close>: a dictionary whose subscript read inserts
  the default \<open>0\<close> for a missing key.  The dictionary is a map; every method takes the
  state and returns the new one next to its result.  Python's \<open>None\<close> for an omitted
  argument is \<open>None\<close> of the option type.
\<close>

type_synonym 'k counts = "'k \<rightharpoonup> int"

definition CallCount :: "'k counts option \<Rightarrow> 'k counts" where
  \<comment> \<open>\<open>defaultdict(int, initial_counts or {})\<close>\<close>
  "CallCount initial_counts = (case initial_counts of None \<Rightarrow> Map.empty | Some m \<Rightarrow> m)"

definition defaultdict_getitem :: "'k counts \<Rightarrow> 'k \<Rightarrow> int \<times> 'k counts" where
  \<comment> \<open>\<open>d[k]\<close> on a \<open>defaultdict(int)\<close>: a missing key is stored with \<open>int() = 0\<close>\<close>
  "defaultdict_getitem d k = (case d k of None \<Rightarrow> (0, d(k \<mapsto> 0)) | Some v \<Rightarrow> (v, d))"

definition call :: "'k counts \<Rightarrow> 'k \<Rightarrow> int \<times> 'k counts" where
  \<comment> \<open>\<open>self._counts[argument] += 1; return self._counts[argument]\<close>\<close>
  "call s argument =
     (let (old, s1) = defaultdict_getitem s argument;
          s2 = s1(argument \<mapsto> old + 1)
      in defaultdict_getitem s2 argument)"

definition get_count :: "'k counts \<Rightarrow> 'k \<Rightarrow> int \<times> 'k counts" where
  \<comment> \<open>\<open>self._counts.get(argument, 0)\<close>: \<open>dict.get\<close> never stores the default\<close>
  "get_count s argument = (case s argument of None \<Rightarrow> (0, s) | Some v \<Rightarrow> (v, s))"

definition reset :: "'k counts \<Rightarrow> 'k option \<Rightarrow> 'k counts" where
  "reset s argument = (case argument of None \<Rightarrow> Map.empty | Some k \<Rightarrow> s(k \<mapsto> 0))"

subsection \<open>Row-to-record mapper (\<open>parameter_passing/unpacking_variables.py\<close>)\<close>

text \<open>
  A database row is a Python tuple, here the list of its fields; a field is an integer or
  a string.  The dataclass \<open>User\<close> stores whatever it is given.  \<open>row[i]\<close> raises
  \<open>IndexError\<close> out of range, and unpacking into three names raises \<open>ValueError\<close> unless
  the row has exactly three fields.  A list comprehension stops at the first exception.
\<close>

datatype field = IntF int | StrF string

record User =
  user_id :: field
  first_name :: field
  last_name :: field

definition tuple_getitem :: "field list \<Rightarrow> nat \<Rightarrow> py_error + field" where
  "tuple_getitem row i =
     (if i < length row then Inr (row ! i) else Inl (IndexError ''tuple index out of range''))"

fun comprehension :: "('a \<Rightarrow> py_error + 'b) \<Rightarrow> 'a list \<Rightarrow> py_error + 'b list" where
  "comprehension f [] = Inr []"
| "comprehension f (x # xs) =
     (case f x of
        Inl e \<Rightarrow> Inl e
      | Inr y \<Rightarrow> (case comprehension f xs of Inl e \<Rightarrow> Inl e | Inr ys \<Rightarrow> Inr (y # ys)))"

definition bad_user_from_row :: "field list \<Rightarrow> py_error + User" where
  \<comment> \<open>\<open>User(row[0], row[1], row[2])\<close>\<close>
  "bad_user_from_row row =
     (case tuple_getitem row 0 of
        Inl e \<Rightarrow> Inl e
      | Inr a \<Rightarrow>
          (case tuple_getitem row 1 of
             Inl e \<Rightarrow> Inl e
           | Inr b \<Rightarrow>
               (case tuple_getitem row 2 of
                  Inl e \<Rightarrow> Inl e
                | Inr c \<Rightarrow> Inr \<lparr>user_id = a, first_name = b, last_name = c\<rparr>)))"

definition bad_users_from_rows :: "field list list \<Rightarrow> py_error + User list" where
  "bad_users_from_rows dbrows = comprehension bad_user_from_row dbrows"

fun user_from_row :: "field list \<Rightarrow> py_error + User" where
  \<comment> \<open>\<open>User(user_id, first_name, last_name) for (user_id, first_name, last_name) in ...\<close>\<close>
  "user_from_row [a, b, c] = Inr \<lparr>user_id = a, first_name = b, last_name = c\<rparr>"
| "user_from_row (a # b # c # d # rest) =
     Inl (ValueError [Text ''too many values to unpack (expected 3)''])"
| "user_from_row row = Inl (ValueError [Text ''not enough values to unpack''])"

definition users_from_rows :: "field list list \<Rightarrow> py_error + User list" where
  "users_from_rows dbrows = comprehension user_from_row dbrows"

subsection \<open>Validated-property coordinate (\<open>pythonindepth/a_case_for_properties.py\<close>)\<close>

text \<open>
  \<open>v in range(start, stop)\<close>: for an \<open>int\<close> the range answers by arithmetic; for any
  other object it compares the object with each member of the range in turn (\<open>==\<close>).
  A float equals an \<open>int\<close> exactly when it is finite and denotes that integer.
\<close>

fun float_eq_int :: "pyfloat \<Rightarrow> int \<Rightarrow> bool" where
  "float_eq_int (Finite x) k = (x = of_int k)"
| "float_eq_int PosInf k = False"
| "float_eq_int NegInf k = False"
| "float_eq_int NaN k = False"

definition range_contains :: "int \<Rightarrow> int \<Rightarrow> pynum \<Rightarrow> bool" where
  "range_contains start stop v =
     (case v of
        PyInt i \<Rightarrow> start \<le> i \<and> i < stop
      | PyFloat f \<Rightarrow> list_ex (float_eq_int f) [start..stop - 1])"

text \<open>
  The instance attributes \<open>_latitude\<close> and \<open>_longitude\<close> are \<open>None\<close> until the setters
  have stored a value.  The property \<open>latitude\<close> has a getter (here \<open>latitude\<close>) and a
  setter (here \<open>latitude_setter\<close>); the same for \<open>longitude\<close>.
\<close>

record Coordinate =
  priv_latitude :: "pynum option"
  priv_longitude :: "pynum option"

definition latitude :: "Coordinate \<Rightarrow> pynum option" where
  "latitude self = priv_latitude self"

definition latitude_setter :: "Coordinate \<Rightarrow> pynum \<Rightarrow> py_error + Coordinate" where
  "latitude_setter self lat_value =
     (if \<not> range_contains (- 90) (90 + 1) lat_value
      then Inl (ValueError [Value lat_value, Text '' is an invalid value for latitude''])
      else Inr (self\<lparr>priv_latitude := Some lat_value\<rparr>))"

definition longitude :: "Coordinate \<Rightarrow> pynum option" where
  "longitude self = priv_longitude self"

definition longitude_setter :: "Coordinate \<Rightarrow> pynum \<Rightarrow> py_error + Coordinate" where
  "longitude_setter self long_value =
     (if \<not> range_contains (- 180) (180 + 1) long_value
      then Inl (ValueError [Value long_value, Text '' is an invalid value for longitude''])
      else Inr (self\<lparr>priv_longitude := Some long_value\<rparr>))"

definition Coordinate_init :: "pynum \<Rightarrow> pynum \<Rightarrow> py_error + Coordinate" where
  \<comment> \<open>\<open>__init__\<close>: both attributes \<open>None\<close>, then the two guarded assignments in order\<close>
  "Coordinate_init lat long =
     (case latitude_setter \<lparr>priv_latitude = None, priv_longitude = None\<rparr> lat of
        Inl e \<Rightarrow> Inl e
      | Inr self \<Rightarrow> longitude_setter self long)"

subsection \<open>Fixed-fan-out trie node (\<open>pythonindepth/rtrie.py\<close>)\<close>

text \<open>
  The dataclass has the fields \<open>value\<close> and \<open>next_\<close> (here \<open>node_value\<close> and
  \<open>next_list\<close>); \<open>size\<close> has no annotation and so is a class attribute, not a field.
  A child slot is \<open>None\<close> or a node.  The generated \<open>__init__\<close> stores the fields, taking
  \<open>next_\<close> from the default factory when it is omitted, and then runs \<open>__post_init__\<close>.
\<close>

datatype RTrieNode = RTrieNode (node_value: int) (next_list: "RTrieNode option list")

definition R :: nat where
  "R = 26"

definition node_size :: nat where
  \<comment> \<open>the class attribute \<open>size = R\<close>\<close>
  "node_size = R"

definition post_init :: "RTrieNode \<Rightarrow> py_error + RTrieNode" where
  "post_init self =
     (if length (next_list self) \<noteq> node_size
      then Inl (ValueError [Text ''Invalid length provided for next list''])
      else Inr self)"

definition RTrieNode_init :: "int \<Rightarrow> RTrieNode option list option \<Rightarrow> py_error + RTrieNode" where
  "RTrieNode_init v nxt =
     post_init (RTrieNode v (case nxt of None \<Rightarrow> replicate R None | Some xs \<Rightarrow> xs))"

subsection \<open>Tagged list view (\<open>pythonindepth/extend_list.py\<close>)\<close>

text \<open>
  \<open>UserList.__getitem__\<close> with an integer index reads \<open>self.data[index]\<close>: a negative
  index counts from the end, and an index outside \<open>-len .. len - 1\<close> raises
  \<open>IndexError\<close>.  Python's \<open>%\<close> with a positive divisor is never negative, as \<open>mod\<close> on
  \<open>int\<close>.  How an element is rendered inside the f-string is the parameter \<open>fmt\<close>.
\<close>

definition list_getitem :: "'a list \<Rightarrow> int \<Rightarrow> py_error + 'a" where
  "list_getitem data index =
     (if 0 \<le> index \<and> index < int (length data) then Inr (data ! nat index)
      else if index < 0 \<and> - int (length data) \<le> index
        then Inr (data ! nat (int (length data) + index))
      else Inl (IndexError ''list index out of range''))"

definition getitem :: "('a \<Rightarrow> string) \<Rightarrow> 'a list \<Rightarrow> int \<Rightarrow> py_error + string" where
  "getitem fmt data index =
     (case list_getitem data index of
        Inl e \<Rightarrow> Inl e
      | Inr v \<Rightarrow>
          (let prefix = (if index mod 2 = 0 then ''even'' else ''odd'')
           in Inr (''['' @ prefix @ ''] '' @ fmt v)))"

subsection \<open>Sorted bag (\<open>pythonindepth/container_object.py\<close>)\<close>

text \<open>
  \<open>bisect.bisect_left(a, x)\<close> is the loop of the standard library, with \<open>lo = 0\<close> and
  \<open>hi = len(a)\<close>: while \<open>lo < hi\<close>, halve at \<open>mid = (lo + hi) // 2\<close> and keep the upper
  part when \<open>a[mid] < x\<close>, the lower part otherwise.  The read \<open>a[mid]\<close> is in range,
  since \<open>mid < hi \<le> len(a)\<close>.  \<open>sorted\<close> is \<open>sort\<close>; the elements are of a linearly
  ordered type, on which Python's \<open>==\<close> is equality.
\<close>

function bisect_left_loop :: "'a::linorder list \<Rightarrow> 'a \<Rightarrow> nat \<Rightarrow> nat \<Rightarrow> nat" where
  "bisect_left_loop a x lo hi =
     (if lo < hi
      then (let mid = (lo + hi) div 2
            in if a ! mid < x then bisect_left_loop a x (mid + 1) hi
               else bisect_left_loop a x lo mid)
      else lo)"
  by pat_completeness auto
termination
  by (relation "measure (\<lambda>(a, x, lo, hi). hi - lo)") auto

declare bisect_left_loop.simps [simp del]

definition bisect_left :: "'a::linorder list \<Rightarrow> 'a \<Rightarrow> nat" where
  "bisect_left a x = bisect_left_loop a x 0 (length a)"

record 'a Bag =
  sorted_list :: "'a list"

definition Bag_init :: "'a::linorder list \<Rightarrow> 'a Bag" where
  "Bag_init input = \<lparr>sorted_list = sort input\<rparr>"

definition contains :: "'a::linorder Bag \<Rightarrow> 'a \<Rightarrow> bool" where
  "contains self x =
     (let idx = bisect_left (sorted_list self) x
      in idx < length (sorted_list self) \<and> sorted_list self ! idx = x)"

subsection \<open>Multiple-inheritance resolution order (\<open>oop/mro.py\<close>)\<close>

text \<open>
  Python linearises the bases of a class by the C3 merge: repeatedly take the first head
  of the non-empty sequences that is in the tail of none of them, and remove it from the
  heads; when no head qualifies the class statement raises \<open>TypeError\<close> (\<open>None\<close> here).
  The method resolution order of a class is the class followed by the merge of the
  orders of its bases and the list of the bases.
\<close>

definition good_head :: "'a list list \<Rightarrow> 'a \<Rightarrow> bool" where
  "good_head seqs cand = list_all (\<lambda>s. cand \<notin> set (tl s)) seqs"

lemma sum_list_length_filter: "sum_list (map length (filter P xs)) \<le> sum_list (map length xs)"
  by (induction xs) auto

lemma sum_list_drop_head:
  "s \<in> set xs \<Longrightarrow> s \<noteq> [] \<Longrightarrow> hd s = c \<Longrightarrow>
   sum_list (map length (map (\<lambda>seq. if hd seq = c then tl seq else seq) xs))
     < sum_list (map length xs)"
proof (induction xs)
  case Nil
  then show ?case by simp
next
  case (Cons a xs)
  have le: "sum_list (map length (map (\<lambda>seq. if hd seq = c then tl seq else seq) ys))
              \<le> sum_list (map length ys)" for ys :: "'a list list"
    by (induction ys) auto
  show ?case
  proof (cases "s = a")
    case True
    with Cons.prems obtain h t where a: "a = h # t" by (cases a) auto
    with True Cons.prems le [of xs] show ?thesis by simp
  next
    case False
    with Cons have "sum_list (map length (map (\<lambda>seq. if hd seq = c then tl seq else seq) xs))
              < sum_list (map length xs)" by simp
    then show ?thesis by auto
  qed
qed

function merge :: "'a list list \<Rightarrow> 'a list option" where
  "merge seqs =
     (let nonemptyseqs = filter (\<lambda>seq. seq \<noteq> []) seqs
      in if nonemptyseqs = [] then Some []
         else (case find (good_head nonemptyseqs) (map hd nonemptyseqs) of
                 None \<Rightarrow> None
               | Some cand \<Rightarrow>
                   map_option ((#) cand)
                     (merge (map (\<lambda>seq. if hd seq = cand then tl seq else seq) nonemptyseqs))))"
  by pat_completeness auto

termination
proof (relation "measure (\<lambda>seqs. sum_list (map length seqs))")
  show "wf (measure (\<lambda>seqs. sum_list (map length seqs)))" by simp
next
  fix seqs :: "'a list list" and nonemptyseqs cand
  assume ne: "nonemptyseqs = filter (\<lambda>seq. seq \<noteq> []) seqs"
    and f: "find (good_head nonemptyseqs) (map hd nonemptyseqs) = Some cand"
  from f have "cand \<in> set (map hd nonemptyseqs)"
    by (auto simp: find_Some_iff)
  then obtain s where s: "s \<in> set nonemptyseqs" "hd s = cand" by auto
  then have "s \<noteq> []" using ne by simp
  from sum_list_drop_head [OF s(1) this s(2)] sum_list_length_filter [of "\<lambda>seq. seq \<noteq> []" seqs]
  show "(map (\<lambda>seq. if hd seq = cand then tl seq else seq) nonemptyseqs, seqs)
          \<in> measure (\<lambda>seqs. sum_list (map length seqs))"
    using ne by simp
qed

declare merge.simps [simp del]

text \<open>
  A class has its bases, its resolution order (computed when the class statement runs,
  from the orders of the bases already in the table) and its own dictionary.  The values
  in the dictionaries of \<open>mro.py\<close> are strings and the functions \<open>__init__\<close> and
  \<open>__str__\<close>.  A class statement with no base has the base \<open>object\<close>.
\<close>

datatype func = BaseModule_init | BaseModule_str | object_init | object_str

datatype attr = Str string | Func func

record py_class =
  cls_bases :: "string list"
  cls_mro :: "string list"
  cls_dict :: "(string \<times> attr) list"

type_synonym class_table = "(string \<times> py_class) list"

definition builtins :: class_table where
  "builtins =
     [(''object'', \<lparr>cls_bases = [], cls_mro = [''object''],
        cls_dict = [(''__init__'', Func object_init), (''__str__'', Func object_str)]\<rparr>)]"

definition compute_mro :: "class_table \<Rightarrow> string \<Rightarrow> string list \<Rightarrow> py_error + string list" where
  "compute_mro tbl name bases =
     (case those (map (\<lambda>b. map_option cls_mro (map_of tbl b)) bases) of
        None \<Rightarrow> Inl (NameError ''base class is not defined'')
      | Some mros \<Rightarrow>
          (case merge (mros @ [bases]) of
             None \<Rightarrow> Inl (TypeError ''Cannot create a consistent MRO'')
           | Some m \<Rightarrow> Inr (name # m)))"

definition class_stmt ::
  "string \<Rightarrow> string list \<Rightarrow> (string \<times> attr) list \<Rightarrow> class_table \<Rightarrow> py_error + class_table" where
  "class_stmt name bases body tbl =
     (let bases' = (if bases = [] then [''object''] else bases)
      in case compute_mro tbl name bases' of
           Inl e \<Rightarrow> Inl e
         | Inr m \<Rightarrow> Inr ((name, \<lparr>cls_bases = bases', cls_mro = m, cls_dict = body\<rparr>) # tbl))"

fun class_stmts ::
  "(string \<times> string list \<times> (string \<times> attr) list) list \<Rightarrow> class_table \<Rightarrow> py_error + class_table" where
  "class_stmts [] tbl = Inr tbl"
| "class_stmts ((name, bases, body) # rest) tbl =
     (case class_stmt name bases body tbl of Inl e \<Rightarrow> Inl e | Inr tbl' \<Rightarrow> class_stmts rest tbl')"

text \<open>The six class statements of \<open>mro.py\<close>, in order.\<close>

definition mro_py :: "py_error + class_table" where
  "mro_py = class_stmts
     [(''BaseModule'', [],
         [(''module_name'', Str ''top''), (''__init__'', Func BaseModule_init),
          (''__str__'', Func BaseModule_str)]),
      (''BaseModule1'', [''BaseModule''], [(''module_name'', Str ''module-1'')]),
      (''BaseModule2'', [''BaseModule''], [(''module_name'', Str ''module-2'')]),
      (''BaseModule3'', [''BaseModule''], [(''module_name'', Str ''module-3'')]),
      (''ConcreteModuleA12'', [''BaseModule1'', ''BaseModule2''],
         [(''__doc__'', Str ''Extend 1 & 2'')]),
      (''ConcreteModuleB23'', [''BaseModule2'', ''BaseModule3''],
         [(''__doc__'', Str ''Extend 2 & 3'')])]
     builtins"

text \<open>
  An instance has its class and its own dictionary.  A method or special method is looked
  up along the resolution order of the class; an attribute read \<open>self.a\<close> takes the
  instance dictionary first (no class attribute here is a data descriptor) and the classes
  along the resolution order next.  \<open>BaseModule.__init__\<close> stores \<open>self.name\<close>;
  \<open>BaseModule.__str__\<close> is the f-string \<open>{self.module_name}:{self.name}\<close>.
\<close>

record py_object =
  obj_class :: string
  obj_dict :: "string \<rightharpoonup> string"

fun lookup_mro :: "class_table \<Rightarrow> string list \<Rightarrow> string \<Rightarrow> attr option" where
  "lookup_mro tbl [] a = None"
| "lookup_mro tbl (c # cs) a =
     (case map_of tbl c of
        None \<Rightarrow> lookup_mro tbl cs a
      | Some k \<Rightarrow>
          (case map_of (cls_dict k) a of
             Some v \<Rightarrow> Some v
           | None \<Rightarrow> lookup_mro tbl cs a))"

definition type_lookup :: "class_table \<Rightarrow> string \<Rightarrow> string \<Rightarrow> py_error + attr" where
  "type_lookup tbl cls a =
     (case map_of tbl cls of
        None \<Rightarrow> Inl (NameError cls)
      | Some k \<Rightarrow>
          (case lookup_mro tbl (cls_mro k) a of
             None \<Rightarrow> Inl (AttributeError a)
           | Some v \<Rightarrow> Inr v))"

definition getattr :: "class_table \<Rightarrow> py_object \<Rightarrow> string \<Rightarrow> py_error + attr" where
  "getattr tbl self a =
     (case obj_dict self a of
        Some v \<Rightarrow> Inr (Str v)
      | None \<Rightarrow> type_lookup tbl (obj_class self) a)"

definition setattr :: "py_object \<Rightarrow> string \<Rightarrow> string \<Rightarrow> py_object" where
  "setattr self a v = self\<lparr>obj_dict := (obj_dict self)(a \<mapsto> v)\<rparr>"

fun call_init :: "func \<Rightarrow> py_object \<Rightarrow> string \<Rightarrow> py_error + py_object" where
  "call_init BaseModule_init self module_name = Inr (setattr self ''name'' module_name)"
| "call_init object_init self module_name =
     Inl (TypeError ''object.__init__() takes exactly one argument'')"
| "call_init f self module_name = Inl (TypeError ''not an initialiser'')"

definition new :: "class_table \<Rightarrow> string \<Rightarrow> string \<Rightarrow> py_error + py_object" where
  "new tbl cls arg =
     (case type_lookup tbl cls ''__init__'' of
        Inl e \<Rightarrow> Inl e
      | Inr (Str v) \<Rightarrow> Inl (TypeError ''not callable'')
      | Inr (Func f) \<Rightarrow> call_init f \<lparr>obj_class = cls, obj_dict = Map.empty\<rparr> arg)"

definition format_attr :: "py_error + attr \<Rightarrow> py_error + string" where
  "format_attr r =
     (case r of
        Inl e \<Rightarrow> Inl e
      | Inr (Str v) \<Rightarrow> Inr v
      | Inr (Func f) \<Rightarrow> Inl (NotModelled ''format of a function object''))"

fun call_str :: "class_table \<Rightarrow> func \<Rightarrow> py_object \<Rightarrow> py_error + string" where
  "call_str tbl BaseModule_str self =
     (case format_attr (getattr tbl self ''module_name'') of
        Inl e \<Rightarrow> Inl e
      | Inr a \<Rightarrow>
          (case format_attr (getattr tbl self ''name'') of
             Inl e \<Rightarrow> Inl e
           | Inr b \<Rightarrow> Inr (a @ '':'' @ b)))"
| "call_str tbl f self = Inl (NotModelled ''object.__str__'')"

definition str :: "class_table \<Rightarrow> py_object \<Rightarrow> py_error + string" where
  "str tbl obj =
     (case type_lookup tbl (obj_class obj) ''__str__'' of
        Inl e \<Rightarrow> Inl e
      | Inr (Str v) \<Rightarrow> Inl (TypeError ''not callable'')
      | Inr (Func f) \<Rightarrow> call_str tbl f obj)"

definition mro :: "class_table \<Rightarrow> string \<Rightarrow> py_error + string list" where
  "mro tbl cls = (case map_of tbl cls of None \<Rightarrow> Inl (NameError cls) | Some k \<Rightarrow> Inr (cls_mro k))"

text \<open>\<open>str(cls(arg))\<close> after the class statements of the module, as \<open>__main__\<close> prints it.\<close>

definition render :: "string \<Rightarrow> string \<Rightarrow> py_error + string" where
  "render cls arg =
     (case mro_py of
        Inl e \<Rightarrow> Inl e
      | Inr tbl \<Rightarrow> (case new tbl cls arg of Inl e \<Rightarrow> Inl e | Inr obj \<Rightarrow> str tbl obj))"

subsection \<open>Scoped-resource components (\<open>basics/context_decorator.py\<close>, \<open>pythonindepth/context_manager_sample.py\<close>, \<open>pythonindepth/contextlib_sample.py\<close>)\<close>

text \<open>
  \<open>run = print\<close>: the observable effect of an action is the line it appends to the
  standard output, here the list of the lines printed so far.  A bracketed block is any
  computation on that output which ends with a value (\<open>Inr\<close>) or by raising (\<open>Inl\<close>).
\<close>

type_synonym stdout = "string list"

definition run :: "string \<Rightarrow> stdout \<Rightarrow> stdout" where
  "run line out = out @ [line]"

definition stop_database :: "stdout \<Rightarrow> stdout" where
  "stop_database out = run ''systemctl stop postgresql.service'' out"

definition start_database :: "stdout \<Rightarrow> stdout" where
  "start_database out = run ''systemctl start postgresql.service'' out"

definition db_backup :: "stdout \<Rightarrow> (py_error + unit) \<times> stdout" where
  "db_backup out = (Inr (), run ''pg_dump database'' out)"

text \<open>
  The \<open>with\<close> statement of the language: \<open>__enter__\<close> runs first and its result is
  handed to the block; when the block ends normally \<open>__exit__(None, None, None)\<close> runs;
  when the block raises, \<open>__exit__\<close> runs with the exception, which is raised again
  afterwards unless \<open>__exit__\<close> returned a true value.  The state \<open>'w\<close> is whatever the
  manager and the block act on.  The result is \<open>Some\<close> of the block's value, or \<open>None\<close>
  when the exception was suppressed.
\<close>

definition with_stmt ::
  "('w \<Rightarrow> (py_error + 'h) \<times> 'w) \<Rightarrow> (py_error option \<Rightarrow> 'w \<Rightarrow> (py_error + bool) \<times> 'w)
   \<Rightarrow> ('h \<Rightarrow> 'w \<Rightarrow> (py_error + 'a) \<times> 'w) \<Rightarrow> 'w \<Rightarrow> (py_error + 'a option) \<times> 'w" where
  "with_stmt enter exit block w =
     (case enter w of
        (Inl e, w1) \<Rightarrow> (Inl e, w1)
      | (Inr h, w1) \<Rightarrow>
          (case block h w1 of
             (Inr r, w2) \<Rightarrow>
               (case exit None w2 of
                  (Inl e, w3) \<Rightarrow> (Inl e, w3)
                | (Inr suppress, w3) \<Rightarrow> (Inr (Some r), w3))
           | (Inl e, w2) \<Rightarrow>
               (case exit (Some e) w2 of
                  (Inl e', w3) \<Rightarrow> (Inl e', w3)
                | (Inr suppress, w3) \<Rightarrow> if suppress then (Inr None, w3) else (Inl e, w3))))"

text \<open>
  The manual form.  \<open>__enter__\<close> stops the database and returns the handler;
  \<open>__exit__\<close> starts it and returns \<open>None\<close>, which is not true.
\<close>

datatype DBHandler = DBHandler

definition DBHandler_enter :: "stdout \<Rightarrow> (py_error + DBHandler) \<times> stdout" where
  "DBHandler_enter out = (Inr DBHandler, stop_database out)"

definition DBHandler_exit :: "py_error option \<Rightarrow> stdout \<Rightarrow> (py_error + bool) \<times> stdout" where
  "DBHandler_exit exc out = (Inr False, start_database out)"

definition main :: "stdout \<Rightarrow> (py_error + unit option) \<times> stdout" where
  "main out = with_stmt DBHandler_enter DBHandler_exit (\<lambda>h. db_backup) out"

text \<open>
  The decorator form.  \<open>ContextDecorator.__call__\<close> wraps the function in
  \<open>with self._recreate_cm(): return func(*args, **kwds)\<close>.
\<close>

datatype dbhandler_decorator = dbhandler_decorator

definition dbhandler_decorator_enter :: "stdout \<Rightarrow> (py_error + dbhandler_decorator) \<times> stdout" where
  "dbhandler_decorator_enter out = (Inr dbhandler_decorator, stop_database out)"

definition dbhandler_decorator_exit ::
  "py_error option \<Rightarrow> stdout \<Rightarrow> (py_error + bool) \<times> stdout" where
  "dbhandler_decorator_exit exc out = (Inr False, start_database out)"

definition ContextDecorator_call ::
  "(stdout \<Rightarrow> (py_error + 'a) \<times> stdout) \<Rightarrow> stdout \<Rightarrow> (py_error + 'a option) \<times> stdout" where
  "ContextDecorator_call func out =
     with_stmt dbhandler_decorator_enter dbhandler_decorator_exit (\<lambda>h. func) out"

definition offline_backup :: "stdout \<Rightarrow> (py_error + unit option) \<times> stdout" where
  "offline_backup = ContextDecorator_call (\<lambda>out. (Inr (), run ''pg_dump database'' out))"

text \<open>
  The generator form.  The generator \<open>db_handler\<close> has one \<open>yield\<close>, inside
  \<open>try ... finally\<close>: its frame is not yet started, suspended at the \<open>yield\<close>, or
  finished.  It is resumed by \<open>next\<close> (\<open>None\<close>) or by \<open>throw\<close> of an exception, and then
  yields, returns or raises.  Resumed at the \<open>yield\<close>, it leaves the \<open>try\<close> block and the
  \<open>finally\<close> clause starts the database, whether the \<open>yield\<close> returned or raised.  An
  exception thrown into a frame that has not started is raised before the \<open>try\<close>.
\<close>

datatype gen_state = Created | Suspended | Closed

datatype resumed = Yield | Return | Raise py_error

fun db_handler :: "py_error option \<Rightarrow> gen_state \<times> stdout \<Rightarrow> resumed \<times> gen_state \<times> stdout" where
  "db_handler None (Created, out) = (Yield, Suspended, stop_database out)"
| "db_handler (Some e) (Created, out) = (Raise e, Closed, out)"
| "db_handler None (Suspended, out) = (Return, Closed, start_database out)"
| "db_handler (Some e) (Suspended, out) = (Raise e, Closed, start_database out)"
| "db_handler None (Closed, out) = (Return, Closed, out)"
| "db_handler (Some e) (Closed, out) = (Raise e, Closed, out)"

text \<open>
  Around every generator: a \<open>StopIteration\<close> that escapes the body is replaced by a
  \<open>RuntimeError\<close> whose cause it is.  \<open>contextlib.contextmanager\<close> turns the generator
  into a manager: \<open>__enter__\<close> is \<open>next\<close>; \<open>__exit__\<close> is \<open>next\<close> when the block ended
  normally and \<open>throw\<close> of the block's exception otherwise, and it returns false when the
  generator raises that same exception again.
\<close>

definition generator_raise :: "py_error \<Rightarrow> py_error" where
  "generator_raise e =
     (if e = StopIteration
      then RuntimeError ''generator raised StopIteration'' (Some StopIteration) else e)"

definition gen_resume ::
  "(py_error option \<Rightarrow> 'g \<times> stdout \<Rightarrow> resumed \<times> 'g \<times> stdout)
   \<Rightarrow> py_error option \<Rightarrow> 'g \<times> stdout \<Rightarrow> resumed \<times> 'g \<times> stdout" where
  "gen_resume gen sent w =
     (case gen sent w of
        (Raise e, w') \<Rightarrow> (Raise (generator_raise e), w')
      | (r, w') \<Rightarrow> (r, w'))"

definition contextmanager_enter ::
  "(py_error option \<Rightarrow> 'g \<times> stdout \<Rightarrow> resumed \<times> 'g \<times> stdout)
   \<Rightarrow> 'g \<times> stdout \<Rightarrow> (py_error + unit) \<times> 'g \<times> stdout" where
  "contextmanager_enter gen w =
     (case gen_resume gen None w of
        (Yield, w') \<Rightarrow> (Inr (), w')
      | (Return, w') \<Rightarrow> (Inl (RuntimeError ''generator didn't yield'' None), w')
      | (Raise e, w') \<Rightarrow> (Inl e, w'))"

definition contextmanager_exit ::
  "(py_error option \<Rightarrow> 'g \<times> stdout \<Rightarrow> resumed \<times> 'g \<times> stdout)
   \<Rightarrow> py_error option \<Rightarrow> 'g \<times> stdout \<Rightarrow> (py_error + bool) \<times> 'g \<times> stdout" where
  "contextmanager_exit gen exc w =
     (case exc of
        None \<Rightarrow>
          (case gen_resume gen None w of
             (Return, w') \<Rightarrow> (Inr False, w')
           | (Yield, w') \<Rightarrow> (Inl (RuntimeError ''generator didn't stop'' None), w')
           | (Raise e, w') \<Rightarrow> (Inl e, w'))
      | Some v \<Rightarrow>
          (case gen_resume gen (Some v) w of
             (Return, w') \<Rightarrow> (Inr True, w')
           | (Yield, w') \<Rightarrow>
               (Inl (RuntimeError ''generator didn't stop after throw()'' None), w')
           | (Raise e, w') \<Rightarrow>
               (case e of
                  RuntimeError m cause \<Rightarrow>
                    if e = v then (Inr False, w')
                    else if v = StopIteration \<and> cause = Some v then (Inr False, w')
                    else (Inl e, w')
                | _ \<Rightarrow> if e \<noteq> v then (Inl e, w') else (Inr False, w'))))"

text \<open>\<open>with db_handler(): block\<close>, on a fresh generator; the block acts on the output only.\<close>

definition on_stdout ::
  "(stdout \<Rightarrow> (py_error + 'a) \<times> stdout) \<Rightarrow> 'g \<times> stdout \<Rightarrow> (py_error + 'a) \<times> 'g \<times> stdout" where
  "on_stdout block w = (case block (snd w) of (r, out') \<Rightarrow> (r, fst w, out'))"

definition with_db_handler ::
  "(unit \<Rightarrow> stdout \<Rightarrow> (py_error + 'a) \<times> stdout) \<Rightarrow> stdout
   \<Rightarrow> (py_error + 'a option) \<times> gen_state \<times> stdout" where
  "with_db_handler block out =
     with_stmt (contextmanager_enter db_handler) (contextmanager_exit db_handler)
       (\<lambda>h. on_stdout (block h)) (Created, out)"

subsection \<open>Account ids from ARNs (\<open>pythonindepth/naive_vs_comprension.py\<close>)\<close>

text \<open>
  A string is a list of characters with code points below 256.  The pattern is kept as the
  list of its items, as the regular-expression compiler of the library reads it: a
  single-character item (a literal, a set \<open>[...]\<close>, a category \<open>\w\<close> or \<open>\d\<close>, or \<open>.\<close>), a
  greedy repetition of a single-character item with its bounds, the opening and closing
  marks of a named group, and the anchors \<open>^\<close> and \<open>$\<close>.  For a \<open>str\<close> pattern \<open>\w\<close> is an
  alphanumeric character of Unicode or the underscore and \<open>\d\<close> a decimal digit of
  Unicode; below 256 these are the characters listed in \<open>is_word\<close> and \<open>is_digit\<close>.
  \<open>.\<close> is any character but the newline, and \<open>$\<close> holds at the end of the string and
  before a newline that ends the string.
\<close>

datatype category = Word | Digit

datatype set_item = SetLiteral char | SetCategory category

datatype atom = Literal char | In "set_item list" | Category category | AnyChar

datatype node =
    Atom atom
  | MaxRepeat nat "nat option" atom
  | GroupOpen string
  | GroupClose string
  | AtBeginning
  | AtEnd

definition is_word :: "char \<Rightarrow> bool" where
  "is_word c =
     (let n = (of_char c :: nat)
      in (48 \<le> n \<and> n \<le> 57) \<or> (65 \<le> n \<and> n \<le> 90) \<or> n = 95 \<or> (97 \<le> n \<and> n \<le> 122)
         \<or> n = 170 \<or> n = 178 \<or> n = 179 \<or> n = 181 \<or> n = 185 \<or> n = 186
         \<or> (188 \<le> n \<and> n \<le> 190) \<or> (192 \<le> n \<and> n \<le> 214) \<or> (216 \<le> n \<and> n \<le> 246)
         \<or> 248 \<le> n)"

definition is_digit :: "char \<Rightarrow> bool" where
  "is_digit c = (let n = (of_char c :: nat) in 48 \<le> n \<and> n \<le> 57)"

fun in_category :: "category \<Rightarrow> char \<Rightarrow> bool" where
  "in_category Word c = is_word c"
| "in_category Digit c = is_digit c"

fun in_set_item :: "char \<Rightarrow> set_item \<Rightarrow> bool" where
  "in_set_item c (SetLiteral l) = (c = l)"
| "in_set_item c (SetCategory k) = in_category k c"

fun atom_matches :: "atom \<Rightarrow> char \<Rightarrow> bool" where
  "atom_matches (Literal l) c = (c = l)"
| "atom_matches (In items) c = list_ex (in_set_item c) items"
| "atom_matches (Category k) c = in_category k c"
| "atom_matches AnyChar c = (c \<noteq> CHR 0x0A)"

text \<open>
  The backtracking matcher: \<open>pos\<close> is the number of characters consumed, \<open>s\<close> the rest of
  the string, \<open>marks\<close> the rest of the string where each group opened, \<open>gs\<close> the groups
  closed so far.  A greedy repetition first takes one more character when it may, and
  gives the character back when the rest of the pattern then fails.  \<open>re.match\<close> matches at
  the start of the string and does not need to reach its end.
\<close>

type_synonym groups = "(string \<times> string) list"

fun match_here ::
  "node list \<Rightarrow> nat \<Rightarrow> string \<Rightarrow> (string \<times> string) list \<Rightarrow> groups \<Rightarrow> groups option" where
  "match_here [] pos s marks gs = Some gs"
| "match_here (Atom a # ns) pos s marks gs =
     (case s of
        [] \<Rightarrow> None
      | c # cs \<Rightarrow> if atom_matches a c then match_here ns (pos + 1) cs marks gs else None)"
| "match_here (MaxRepeat mn mx a # ns) pos s marks gs =
     (case (if mx = Some 0 then None
            else (case s of
                    [] \<Rightarrow> None
                  | c # cs \<Rightarrow>
                      if atom_matches a c
                      then match_here (MaxRepeat (mn - 1) (map_option (\<lambda>m. m - 1) mx) a # ns)
                             (pos + 1) cs marks gs
                      else None)) of
        Some r \<Rightarrow> Some r
      | None \<Rightarrow> if mn = 0 then match_here ns pos s marks gs else None)"
| "match_here (GroupOpen name # ns) pos s marks gs = match_here ns pos s ((name, s) # marks) gs"
| "match_here (GroupClose name # ns) pos s marks gs =
     (case map_of marks name of
        None \<Rightarrow> None
      | Some start \<Rightarrow>
          match_here ns pos s marks ((name, take (length start - length s) start) # gs))"
| "match_here (AtBeginning # ns) pos s marks gs =
     (if pos = 0 then match_here ns pos s marks gs else None)"
| "match_here (AtEnd # ns) pos s marks gs =
     (if s = [] \<or> s = [CHR 0x0A] then match_here ns pos s marks gs else None)"

definition re_match :: "node list \<Rightarrow> string \<Rightarrow> groups option" where
  "re_match pattern string = match_here pattern 0 string [] []"

text \<open>
  \<open>ARN_REGEX\<close> is \<open>^arn:aws:[\w-]+:[\w-]*:(?P<account_id>\d{12}):.+$\<close>.
\<close>

definition literal :: "string \<Rightarrow> node list" where
  "literal s = map (\<lambda>c. Atom (Literal c)) s"

definition ARN_REGEX :: "node list" where
  "ARN_REGEX =
     [AtBeginning] @ literal ''arn:aws:''
     @ [MaxRepeat 1 None (In [SetCategory Word, SetLiteral CHR ''-''])] @ literal '':''
     @ [MaxRepeat 0 None (In [SetCategory Word, SetLiteral CHR ''-''])] @ literal '':''
     @ [GroupOpen ''account_id'', MaxRepeat 12 (Some 12) (Category Digit),
        GroupClose ''account_id'']
     @ literal '':'' @ [MaxRepeat 1 None AnyChar, AtEnd]"

text \<open>
  The f-string \<open>{n}\<close> of an \<open>int\<close> is its decimal rendering.  \<open>range(count)\<close> is
  \<open>0, ..., count - 1\<close>, empty when \<open>count \<le> 0\<close>.  The defaults of the parameters of
  \<open>generate_fake_arns\<close> are \<open>s3\<close>, \<open>us-east-1\<close>, \<open>bucket\<close>, \<open>test-bucket\<close> and 10000.
\<close>

function digits :: "nat \<Rightarrow> string" where
  "digits n = (if n < 10 then [''0123456789'' ! n]
               else digits (n div 10) @ [''0123456789'' ! (n mod 10)])"
  by pat_completeness auto
termination
  by (relation "measure id") auto

declare digits.simps [simp del]

definition format_int :: "int \<Rightarrow> string" where
  "format_int i = (if i < 0 then ''-'' @ digits (nat (- i)) else digits (nat i))"

definition generate_fake_arns ::
  "string \<Rightarrow> string \<Rightarrow> string \<Rightarrow> string \<Rightarrow> int \<Rightarrow> string list" where
  "generate_fake_arns service region resource_type resource_prefix count =
     map (\<lambda>i.
            let account_id = format_int (100000000000 + i);
                resource_name = resource_prefix @ ''-'' @ format_int i
            in ''arn:aws:'' @ service @ '':'' @ region @ '':'' @ account_id @ '':''
               @ resource_type @ ''/'' @ resource_name)
         [0 .. count - 1]"

text \<open>
  The eager function adds to a set in a loop.  The lazy function returns a generator,
  here the list of the items the generator yields when it is exhausted, \<open>Inl\<close> when
  exhausting it raises.  \<open>matched.groupdict()["account_id"]\<close> raises \<open>KeyError\<close> for a key
  that is not there.
\<close>

definition groupdict_getitem :: "groups \<Rightarrow> string \<Rightarrow> py_error + string" where
  "groupdict_getitem d k = (case map_of d k of None \<Rightarrow> Inl (KeyError k) | Some v \<Rightarrow> Inr v)"

fun collect_loop :: "string list \<Rightarrow> string set \<Rightarrow> py_error + string set" where
  "collect_loop [] collected_account_ids = Inr collected_account_ids"
| "collect_loop (arn # arns) collected_account_ids =
     (case re_match ARN_REGEX arn of
        None \<Rightarrow> collect_loop arns collected_account_ids
      | Some matched \<Rightarrow>
          (case groupdict_getitem matched ''account_id'' of
             Inl e \<Rightarrow> Inl e
           | Inr account_id \<Rightarrow> collect_loop arns (insert account_id collected_account_ids)))"

definition collect_account_ids_from_arns :: "string list \<Rightarrow> py_error + string set" where
  "collect_account_ids_from_arns arns = collect_loop arns {}"

fun collect_account_ids_from_arns_1 :: "string list \<Rightarrow> py_error + string list" where
  "collect_account_ids_from_arns_1 [] = Inr []"
| "collect_account_ids_from_arns_1 (arn # arns) =
     (case re_match ARN_REGEX arn of
        None \<Rightarrow> collect_account_ids_from_arns_1 arns
      | Some matched \<Rightarrow>
          (case groupdict_getitem matched ''account_id'' of
             Inl e \<Rightarrow> Inl e
           | Inr account_id \<Rightarrow>
               (case collect_account_ids_from_arns_1 arns of
                  Inl e \<Rightarrow> Inl e
                | Inr rest \<Rightarrow> Inr (account_id # rest))))"

section \<open>Verified properties\<close>

subsection \<open>Counting callable\<close>

text \<open>
  Claim C6.  On a fresh \<open>CallCount\<close>, three calls with \<open>"a"\<close> return 1, 2 and 3;
  \<open>get_count("a")\<close> then returns 3 and leaves the state as it was; after \<open>reset("a")\<close>,
  \<open>get_count("a")\<close> returns 0; and after \<open>reset()\<close> every key, whatever was counted
  before, reports 0.
\<close>

theorem CallCount_scenario:
  "CallCount None = (Map.empty :: string counts)
   \<and> call (Map.empty :: string counts) ''a'' = (1, [''a'' \<mapsto> 1])
   \<and> call [''a'' \<mapsto> 1] ''a'' = (2, [''a'' \<mapsto> 2])
   \<and> call [''a'' \<mapsto> 2] ''a'' = (3, [''a'' \<mapsto> 3])
   \<and> get_count [''a'' \<mapsto> 3] ''a'' = (3, [''a'' \<mapsto> 3])
   \<and> get_count (reset [''a'' \<mapsto> 3] (Some ''a'')) ''a'' = (0, [''a'' \<mapsto> 0])
   \<and> get_count (reset s None) k = (0, Map.empty)"
  by (simp add: CallCount_def call_def defaultdict_getitem_def get_count_def reset_def)

subsection \<open>Row-to-record mapper\<close>

lemma bad_user_from_row_3:
  "length row = 3 \<Longrightarrow> bad_user_from_row row = user_from_row row"
proof -
  assume "length row = 3"
  then obtain a b c where "row = [a, b, c]"
    by (cases row; cases "tl row"; cases "tl (tl row)") auto
  then show ?thesis
    by (simp add: bad_user_from_row_def tuple_getitem_def)
qed

lemma user_from_row_3:
  "length row = 3 \<Longrightarrow>
     user_from_row row = Inr \<lparr>user_id = row ! 0, first_name = row ! 1, last_name = row ! 2\<rparr>"
proof -
  assume "length row = 3"
  then obtain a b c where "row = [a, b, c]"
    by (cases row; cases "tl row"; cases "tl (tl row)") auto
  then show ?thesis by simp
qed

lemma comprehension_total:
  "\<forall>x \<in> set xs. f x = Inr (g x) \<Longrightarrow> comprehension f xs = Inr (map g xs)"
  by (induction xs) auto

text \<open>
  Claim C7.  On every list of rows of three fields each, the index-based mapper and the
  destructuring mapper return the same list of \<open>User\<close> records: one record per row, in
  the order of the rows, made of the row's fields at positions 0, 1 and 2.
\<close>

theorem users_from_rows_agree:
  assumes "\<forall>row \<in> set dbrows. length row = 3"
  shows "bad_users_from_rows dbrows = users_from_rows dbrows
       \<and> users_from_rows dbrows =
           Inr (map (\<lambda>row. \<lparr>user_id = row ! 0, first_name = row ! 1, last_name = row ! 2\<rparr>)
                  dbrows)"
proof -
  let ?g = "\<lambda>row. \<lparr>user_id = row ! 0, first_name = row ! 1, last_name = row ! 2\<rparr>"
  have good: "\<forall>row \<in> set dbrows. user_from_row row = Inr (?g row)"
    using assms by (simp add: user_from_row_3)
  have bad: "\<forall>row \<in> set dbrows. bad_user_from_row row = Inr (?g row)"
    using assms by (simp add: bad_user_from_row_3 user_from_row_3)
  show ?thesis
    unfolding bad_users_from_rows_def users_from_rows_def
    using comprehension_total [OF good] comprehension_total [OF bad] by simp
qed

theorem users_from_rows_agree_witness:
  "bad_users_from_rows [[IntF 0, StrF ''first_name_0'', StrF ''last_name_0''],
                          [IntF 1, StrF ''first_name_1'', StrF ''last_name_1'']]
     = Inr [\<lparr>user_id = IntF 0, first_name = StrF ''first_name_0'',
              last_name = StrF ''last_name_0''\<rparr>,
            \<lparr>user_id = IntF 1, first_name = StrF ''first_name_1'',
              last_name = StrF ''last_name_1''\<rparr>]
   \<and> users_from_rows [[IntF 0, StrF ''first_name_0'', StrF ''last_name_0''],
                      [IntF 1, StrF ''first_name_1'', StrF ''last_name_1'']]
     = Inr [\<lparr>user_id = IntF 0, first_name = StrF ''first_name_0'',
              last_name = StrF ''last_name_0''\<rparr>,
            \<lparr>user_id = IntF 1, first_name = StrF ''first_name_1'',
              last_name = StrF ''last_name_1''\<rparr>]"
  using users_from_rows_agree
    [of "[[IntF 0, StrF ''first_name_0'', StrF ''last_name_0''],
          [IntF 1, StrF ''first_name_1'', StrF ''last_name_1'']]"]
  by simp

subsection \<open>Validated-property coordinate\<close>

lemma range_contains_int: "range_contains a b (PyInt i) = (a \<le> i \<and> i < b)"
  by (simp add: range_contains_def)

lemma range_contains_float:
  "range_contains a b (PyFloat f) = (\<exists>k. a \<le> k \<and> k < b \<and> f = Finite (of_int k))"
proof -
  have "float_eq_int f k = (f = Finite (of_int k))" for k
    by (cases f) auto
  then show ?thesis
    by (auto simp add: range_contains_def list_ex_iff)
qed

text \<open>
  Claim C2.  Constructing a \<open>Coordinate\<close> with latitude 91 raises the validation error,
  whatever the longitude; latitude 90 with longitude 180 is accepted; on the accepted
  instance, assigning latitude \<open>-91\<close> raises the validation error.  In general the setter
  of a field validates every assignment: it raises exactly when the value is not in the
  range, and stores the value otherwise.
\<close>

theorem Coordinate_validation:
  "Coordinate_init (PyInt 91) long =
     Inl (ValueError [Value (PyInt 91), Text '' is an invalid value for latitude''])
   \<and> Coordinate_init (PyInt 90) (PyInt 180) =
     Inr \<lparr>priv_latitude = Some (PyInt 90), priv_longitude = Some (PyInt 180)\<rparr>
   \<and> latitude_setter \<lparr>priv_latitude = Some (PyInt 90), priv_longitude = Some (PyInt 180)\<rparr>
       (PyInt (- 91)) =
     Inl (ValueError [Value (PyInt (- 91)), Text '' is an invalid value for latitude''])
   \<and> latitude_setter self v =
     (if range_contains (- 90) 91 v then Inr (self\<lparr>priv_latitude := Some v\<rparr>)
      else Inl (ValueError [Value v, Text '' is an invalid value for latitude'']))
   \<and> longitude_setter self v =
     (if range_contains (- 180) 181 v then Inr (self\<lparr>priv_longitude := Some v\<rparr>)
      else Inl (ValueError [Value v, Text '' is an invalid value for longitude'']))"
  by (simp add: Coordinate_init_def latitude_setter_def longitude_setter_def
      range_contains_int)

text \<open>
  Claim C9.  A float that is not equal to an integer is rejected as latitude and as
  longitude, by the constructor and by the setters, also when it lies strictly between
  the bounds: validity is membership in the integer ranges \<open>-90..90\<close> and \<open>-180..180\<close>.
  (A float that is equal to an integer of the range, such as \<open>45.0\<close>, is accepted.)
\<close>

theorem Coordinate_rejects_fractions:
  assumes "\<forall>k. \<not> float_eq_int f k"
  shows "latitude_setter self (PyFloat f) =
           Inl (ValueError [Value (PyFloat f), Text '' is an invalid value for latitude''])
       \<and> Coordinate_init (PyFloat f) long =
           Inl (ValueError [Value (PyFloat f), Text '' is an invalid value for latitude''])
       \<and> longitude_setter self (PyFloat f) =
           Inl (ValueError [Value (PyFloat f), Text '' is an invalid value for longitude''])
       \<and> (range_contains (- 90) 91 lat \<longrightarrow>
            Coordinate_init lat (PyFloat f) =
              Inl (ValueError [Value (PyFloat f), Text '' is an invalid value for longitude'']))"
proof -
  have "\<not> range_contains a b (PyFloat f)" for a b
    using assms by (simp add: range_contains_def list_ex_iff)
  then show ?thesis
    by (simp add: Coordinate_init_def latitude_setter_def longitude_setter_def
        range_contains_int)
qed

theorem Coordinate_rejects_fractions_witness:
  "(\<forall>k. \<not> float_eq_int (Finite 45.5) k)
   \<and> latitude_setter \<lparr>priv_latitude = Some (PyInt 90), priv_longitude = Some (PyInt 180)\<rparr>
       (PyFloat (Finite 45.5)) =
     Inl (ValueError [Value (PyFloat (Finite 45.5)),
                      Text '' is an invalid value for latitude''])
   \<and> Coordinate_init (PyFloat (Finite 45.5)) (PyInt 10) =
     Inl (ValueError [Value (PyFloat (Finite 45.5)),
                      Text '' is an invalid value for latitude''])
   \<and> Coordinate_init (PyInt 0) (PyFloat (Finite 45.5)) =
     Inl (ValueError [Value (PyFloat (Finite 45.5)),
                      Text '' is an invalid value for longitude''])"
proof -
  have h: "\<forall>k. \<not> float_eq_int (Finite 45.5) k"
  proof (intro allI notI)
    fix k :: int
    assume "float_eq_int (Finite 45.5) k"
    then have "(45.5 :: real) = of_int k" by (simp only: float_eq_int.simps)
    then have "(45.5 :: real) \<in> \<int>" by (simp only: Ints_of_int)
    then show False by simp
  qed
  show ?thesis
    using h Coordinate_rejects_fractions [OF h, of _ _ "PyInt 0"]
    by (simp add: range_contains_int)
qed

subsection \<open>Fixed-fan-out trie node\<close>

text \<open>
  Claim C3.  Constructing a node succeeds with the default child array and with an array
  of 26 absent references, and in general exactly when the array has 26 slots; with any
  other length the constructor raises \<open>ValueError\<close>.  The message of that error is the
  f-string of \<open>__post_init__\<close>, which has no replacement field: for 25 slots and for 27
  slots the constructor raises the same text, with no interpolated value, and so without
  the length that the claim says the message identifies.
\<close>

theorem RTrieNode_fixed_arity:
  "RTrieNode_init v None = Inr (RTrieNode v (replicate 26 None))
   \<and> RTrieNode_init v (Some (replicate 26 None)) = Inr (RTrieNode v (replicate 26 None))
   \<and> RTrieNode_init v (Some xs) =
     (if length xs = 26 then Inr (RTrieNode v xs)
      else Inl (ValueError [Text ''Invalid length provided for next list'']))
   \<and> RTrieNode_init 0 (Some (replicate 25 None)) =
     Inl (ValueError [Text ''Invalid length provided for next list''])
   \<and> RTrieNode_init 0 (Some (replicate 27 None)) =
     Inl (ValueError [Text ''Invalid length provided for next list''])"
  by (simp add: RTrieNode_init_def post_init_def node_size_def R_def)

subsection \<open>Tagged list view\<close>

text \<open>
  Claim C10.  For a valid negative index \<open>i\<close> (\<open>-len \<le> i < 0\<close>) the read returns the
  element at position \<open>len + i\<close>, tagged by \<open>i mod 2\<close> of the index as given and not of
  the position: on a list of five elements, index \<open>-1\<close> gives the element at position 4
  tagged \<open>[odd]\<close> and index \<open>-2\<close> the element at position 3 tagged \<open>[even]\<close>.
\<close>

theorem GoodList_negative_index:
  assumes "index < 0" and "- int (length data) \<le> index"
  shows "getitem fmt data index =
           Inr (''['' @ (if index mod 2 = 0 then ''even'' else ''odd'') @ ''] ''
                @ fmt (data ! nat (int (length data) + index)))
       \<and> (length data = 5 \<longrightarrow>
            getitem fmt data (- 1) = Inr (''[odd] '' @ fmt (data ! 4))
          \<and> getitem fmt data (- 2) = Inr (''[even] '' @ fmt (data ! 3)))"
  using assms by (simp add: getitem_def list_getitem_def)

theorem GoodList_negative_index_witness:
  "(- 1 :: int) < 0 \<and> - int (length [''a'', ''b'', ''c'', ''d'', ''e'']) \<le> - 1
   \<and> length [''a'', ''b'', ''c'', ''d'', ''e''] = 5
   \<and> getitem id [''a'', ''b'', ''c'', ''d'', ''e''] (- 1) = Inr ''[odd] e''
   \<and> getitem id [''a'', ''b'', ''c'', ''d'', ''e''] (- 2) = Inr ''[even] d''"
  using GoodList_negative_index [of "- 1" "[''a'', ''b'', ''c'', ''d'', ''e'']" id]
  by simp

subsection \<open>Sorted bag\<close>

lemma bisect_left_loop_bounds:
  "lo \<le> hi \<Longrightarrow> lo \<le> bisect_left_loop a x lo hi \<and> bisect_left_loop a x lo hi \<le> hi"
proof (induction a x lo hi rule: bisect_left_loop.induct)
  case (1 a x lo hi)
  show ?case
  proof (cases "lo < hi")
    case False
    with "1.prems" show ?thesis by (simp add: bisect_left_loop.simps)
  next
    case True
    let ?mid = "(lo + hi) div 2"
    have m: "lo \<le> ?mid" "?mid < hi" using True by auto
    show ?thesis
    proof (cases "a ! ?mid < x")
      case True
      have "?mid + 1 \<le> hi" using m by simp
      from "1.IH"(1) [OF \<open>lo < hi\<close> refl True this] m \<open>lo < hi\<close> True
      show ?thesis by (subst (1 2) bisect_left_loop.simps) (simp add: Let_def)
    next
      case False
      have "lo \<le> ?mid" using m by simp
      from "1.IH"(2) [OF \<open>lo < hi\<close> refl False this] m \<open>lo < hi\<close> False
      show ?thesis by (subst (1 2) bisect_left_loop.simps) (simp add: Let_def)
    qed
  qed
qed

lemma bisect_left_loop_below:
  "sorted a \<Longrightarrow> lo \<le> hi \<Longrightarrow> hi \<le> length a \<Longrightarrow> \<forall>i<lo. a ! i < x
   \<Longrightarrow> \<forall>i < bisect_left_loop a x lo hi. a ! i < x"
proof (induction a x lo hi rule: bisect_left_loop.induct)
  case (1 a x lo hi)
  show ?case
  proof (cases "lo < hi")
    case False
    with "1.prems" show ?thesis by (simp add: bisect_left_loop.simps)
  next
    case True
    let ?mid = "(lo + hi) div 2"
    have m: "lo \<le> ?mid" "?mid < hi" using True by auto
    show ?thesis
    proof (cases "a ! ?mid < x")
      case lt: True
      have below: "\<forall>i < ?mid + 1. a ! i < x"
      proof (intro allI impI)
        fix i assume "i < ?mid + 1"
        then have "i \<le> ?mid" by simp
        moreover have "?mid < length a" using m "1.prems" by simp
        ultimately have "a ! i \<le> a ! ?mid" using \<open>sorted a\<close> by (simp add: sorted_nth_mono)
        with lt show "a ! i < x" by simp
      qed
      have "?mid + 1 \<le> hi" using m by simp
      from "1.IH"(1) [OF True refl lt \<open>sorted a\<close> this \<open>hi \<le> length a\<close> below] True lt
      show ?thesis by (subst bisect_left_loop.simps) (simp add: Let_def)
    next
      case ge: False
      have "?mid \<le> length a" using m "1.prems" by simp
      from "1.IH"(2) [OF True refl ge \<open>sorted a\<close> m(1) this "1.prems"(4)] True ge
      show ?thesis by (subst bisect_left_loop.simps) (simp add: Let_def)
    qed
  qed
qed

lemma bisect_left_loop_above:
  "sorted a \<Longrightarrow> lo \<le> hi \<Longrightarrow> hi \<le> length a \<Longrightarrow> \<forall>i. hi \<le> i \<and> i < length a \<longrightarrow> x \<le> a ! i
   \<Longrightarrow> \<forall>i. bisect_left_loop a x lo hi \<le> i \<and> i < length a \<longrightarrow> x \<le> a ! i"
proof (induction a x lo hi rule: bisect_left_loop.induct)
  case (1 a x lo hi)
  show ?case
  proof (cases "lo < hi")
    case False
    with "1.prems" show ?thesis by (simp add: bisect_left_loop.simps)
  next
    case True
    let ?mid = "(lo + hi) div 2"
    have m: "lo \<le> ?mid" "?mid < hi" using True by auto
    show ?thesis
    proof (cases "a ! ?mid < x")
      case lt: True
      have "?mid + 1 \<le> hi" using m by simp
      from "1.IH"(1) [OF True refl lt \<open>sorted a\<close> this \<open>hi \<le> length a\<close> "1.prems"(4)] True lt
      show ?thesis by (subst bisect_left_loop.simps) (simp add: Let_def)
    next
      case ge: False
      have above: "\<forall>i. ?mid \<le> i \<and> i < length a \<longrightarrow> x \<le> a ! i"
      proof (intro allI impI)
        fix i assume "?mid \<le> i \<and> i < length a"
        then have "a ! ?mid \<le> a ! i" using \<open>sorted a\<close> by (simp add: sorted_nth_mono)
        with ge show "x \<le> a ! i" by simp
      qed
      have "?mid \<le> length a" using m "1.prems" by simp
      from "1.IH"(2) [OF True refl ge \<open>sorted a\<close> m(1) this above] True ge
      show ?thesis by (subst bisect_left_loop.simps) (simp add: Let_def)
    qed
  qed
qed

lemma bisect_left_insertion_point:
  assumes "sorted a"
  shows "bisect_left a x \<le> length a"
    and "\<forall>i < bisect_left a x. a ! i < x"
    and "\<forall>i. bisect_left a x \<le> i \<and> i < length a \<longrightarrow> x \<le> a ! i"
proof -
  show "bisect_left a x \<le> length a"
    using bisect_left_loop_bounds [of 0 "length a" a x] by (simp add: bisect_left_def)
  show "\<forall>i < bisect_left a x. a ! i < x"
    using bisect_left_loop_below [OF assms, of 0 "length a" x] by (simp add: bisect_left_def)
  have v: "\<forall>i. length a \<le> i \<and> i < length a \<longrightarrow> x \<le> a ! i" by auto
  have "\<forall>i. bisect_left_loop a x 0 (length a) \<le> i \<and> i < length a \<longrightarrow> x \<le> a ! i"
    by (rule bisect_left_loop_above [OF assms _ _ v]) simp_all
  then show "\<forall>i. bisect_left a x \<le> i \<and> i < length a \<longrightarrow> x \<le> a ! i"
    unfolding bisect_left_def .
qed

lemma filter_split_point:
  assumes "r \<le> length a" and "\<forall>i<r. a ! i < x"
    and "\<forall>i. r \<le> i \<and> i < length a \<longrightarrow> x \<le> a ! (i::nat)"
  shows "filter (\<lambda>y. y < (x::'a::linorder)) a = take r a"
proof -
  have 1: "filter (\<lambda>y. y < x) (take r a) = take r a"
    using assms by (auto simp: filter_id_conv in_set_conv_nth)
  have 2: "filter (\<lambda>y. y < x) (drop r a) = []"
    using assms by (auto simp: filter_empty_conv in_set_conv_nth not_less)
  have "filter (\<lambda>y. y < x) a = filter (\<lambda>y. y < x) (take r a @ drop r a)" by simp
  also have "\<dots> = take r a" using 1 2 by (simp del: append_take_drop_id)
  finally show ?thesis .
qed

lemma bisect_left_count:
  assumes "sorted a"
  shows "bisect_left a x = length (filter (\<lambda>y. y < x) a)"
proof -
  note ip = bisect_left_insertion_point [OF assms, of x]
  have "filter (\<lambda>y. y < x) a = take (bisect_left a x) a"
    using ip by (rule filter_split_point)
  then show ?thesis using ip(1) by simp
qed

lemma contains_iff:
  "contains (Bag_init xs) x = (x \<in> set xs)"
proof -
  let ?a = "sort xs" and ?r = "bisect_left (sort xs) x"
  have s: "sorted ?a" by simp
  note ip = bisect_left_insertion_point [OF s, of x]
  show ?thesis
  proof
    assume "contains (Bag_init xs) x"
    then have "?r < length ?a" "?a ! ?r = x"
      by (simp_all add: contains_def Bag_init_def Let_def)
    then have "x \<in> set ?a" by (metis nth_mem)
    then show "x \<in> set xs" by simp
  next
    assume "x \<in> set xs"
    then have "x \<in> set ?a" by simp
    then obtain j where j: "j < length ?a" "?a ! j = x" by (metis in_set_conv_nth)
    have "?r \<le> j"
    proof (rule ccontr)
      assume "\<not> ?r \<le> j"
      then have "?a ! j < x" using ip(2) by simp
      with j show False by simp
    qed
    then have lt: "?r < length ?a" using j by simp
    have "x \<le> ?a ! ?r" using ip(3) lt by simp
    moreover have "?a ! ?r \<le> ?a ! j" using s \<open>?r \<le> j\<close> j(1) by (simp add: sorted_nth_mono)
    ultimately have "?a ! ?r = x" using j by simp
    with lt show "contains (Bag_init xs) x"
      by (simp add: contains_def Bag_init_def Let_def)
  qed
qed

text \<open>
  Claim C5.  The membership test of a \<open>Bag\<close> built from the list \<open>xs\<close> is true for \<open>x\<close>
  exactly when \<open>x\<close> is an element of \<open>xs\<close>; so it is false for a value above every
  element, and false for every query on the empty bag.  It is computed as the code says:
  \<open>bisect_left\<close> on the sorted copy returns the left-most insertion point (the number of
  elements below \<open>x\<close>), and the test is that this index is in range and holds \<open>x\<close>.
\<close>

theorem Bag_membership:
  "contains (Bag_init xs) x = (x \<in> set xs)
   \<and> ((\<forall>y \<in> set xs. y < x) \<longrightarrow> \<not> contains (Bag_init xs) x)
   \<and> \<not> contains (Bag_init []) x
   \<and> bisect_left (sorted_list (Bag_init xs)) x = length (filter (\<lambda>y. y < x) xs)
   \<and> contains b x =
       (bisect_left (sorted_list b) x < length (sorted_list b)
        \<and> sorted_list b ! bisect_left (sorted_list b) x = x)"
proof -
  have "bisect_left (sort xs) x = length (filter (\<lambda>y. y < x) (sort xs))"
    by (simp add: bisect_left_count)
  also have "\<dots> = length (filter (\<lambda>y. y < x) xs)"
    by (simp add: filter_sort)
  finally have c: "bisect_left (sorted_list (Bag_init xs)) x = length (filter (\<lambda>y. y < x) xs)"
    by (simp add: Bag_init_def)
  have e: "\<not> contains (Bag_init []) x" by (simp add: contains_iff)
  have g: "(\<forall>y \<in> set xs. y < x) \<longrightarrow> \<not> contains (Bag_init xs) x" by (auto simp: contains_iff)
  show ?thesis using c e g by (simp add: contains_iff) (simp add: contains_def Let_def)
qed

theorem Bag_membership_witness:
  "contains (Bag_init [3, 1, 2 :: int]) 2 \<and> \<not> contains (Bag_init [3, 1, 2 :: int]) 4
   \<and> bisect_left (sorted_list (Bag_init [3, 1, 2 :: int])) 4 = 3"
  using Bag_membership [of "[3, 1, 2 :: int]" 2, THEN conjunct1]
    Bag_membership [of "[3, 1, 2 :: int]" 4, THEN conjunct1]
    Bag_membership [of "[3, 1, 2 :: int]" 4, THEN conjunct2, THEN conjunct2, THEN conjunct2,
      THEN conjunct1]
  by simp

subsection \<open>Multiple-inheritance resolution order\<close>

text \<open>
  Claim C8.  With the C3 linearisation, rendering \<open>ConcreteModuleA12("name")\<close> (bases
  \<open>module-1\<close> and \<open>module-2\<close>) gives \<open>module-1:name\<close> and rendering
  \<open>ConcreteModuleB23("test")\<close> (bases \<open>module-2\<close> and \<open>module-3\<close>) gives
  \<open>module-2:test\<close>; the resolution order of the first type is the type, its two bases in
  declared order, their common base, and \<open>object\<close>, and likewise for the second.
\<close>

theorem mro_rendering:
  "render ''ConcreteModuleA12'' ''name'' = Inr ''module-1:name''
   \<and> render ''ConcreteModuleB23'' ''test'' = Inr ''module-2:test''
   \<and> (case mro_py of Inl e \<Rightarrow> Inl e | Inr tbl \<Rightarrow> mro tbl ''ConcreteModuleA12'') =
       Inr [''ConcreteModuleA12'', ''BaseModule1'', ''BaseModule2'', ''BaseModule'', ''object'']
   \<and> (case mro_py of Inl e \<Rightarrow> Inl e | Inr tbl \<Rightarrow> mro tbl ''ConcreteModuleB23'') =
       Inr [''ConcreteModuleB23'', ''BaseModule2'', ''BaseModule3'', ''BaseModule'', ''object'']"
  by code_simp

subsection \<open>Scoped-resource components\<close>

lemma exit_raise:
  "contextmanager_exit db_handler (Some e) (Suspended, out) = (Inr False, Closed, start_database out)"
  by (cases e) (simp_all add: contextmanager_exit_def gen_resume_def generator_raise_def)

lemma exit_normal:
  "contextmanager_exit db_handler None (Suspended, out) = (Inr False, Closed, start_database out)"
  by (simp add: contextmanager_exit_def gen_resume_def)

lemma enter_fresh:
  "contextmanager_enter db_handler (Created, out) = (Inr (), Suspended, stop_database out)"
  by (simp add: contextmanager_enter_def gen_resume_def)

text \<open>
  Claim C1.  In the manual form, the decorator form and the generator form alike, the
  block runs on the output to which the stop action has just added its line, and the
  final output is the output the block left followed by exactly one line of the start
  action, whether the block returned or raised; a block that raises \<open>e\<close> makes the whole
  statement raise \<open>e\<close>, after the start action, and no form suppresses it.
\<close>

theorem scoped_resource_bracketing:
  "(block DBHandler (stop_database out) = (Inr v, out2) \<longrightarrow>
      with_stmt DBHandler_enter DBHandler_exit block out = (Inr (Some v), start_database out2))
   \<and> (block DBHandler (stop_database out) = (Inl e, out2) \<longrightarrow>
      with_stmt DBHandler_enter DBHandler_exit block out = (Inl e, start_database out2))
   \<and> (func (stop_database out) = (Inr v, out2) \<longrightarrow>
      ContextDecorator_call func out = (Inr (Some v), start_database out2))
   \<and> (func (stop_database out) = (Inl e, out2) \<longrightarrow>
      ContextDecorator_call func out = (Inl e, start_database out2))
   \<and> (gblock () (stop_database out) = (Inr v, out2) \<longrightarrow>
      with_db_handler gblock out = (Inr (Some v), Closed, start_database out2))
   \<and> (gblock () (stop_database out) = (Inl e, out2) \<longrightarrow>
      with_db_handler gblock out = (Inl e, Closed, start_database out2))
   \<and> stop_database out = out @ [''systemctl stop postgresql.service'']
   \<and> start_database out2 = out2 @ [''systemctl start postgresql.service'']"
proof -
  have manual: "with_stmt DBHandler_enter DBHandler_exit block out =
      (case block DBHandler (stop_database out) of
         (Inl e, out2) \<Rightarrow> (Inl e, start_database out2)
       | (Inr v, out2) \<Rightarrow> (Inr (Some v), start_database out2))"
    by (simp add: with_stmt_def DBHandler_enter_def DBHandler_exit_def
        split: prod.splits sum.splits)
  have decorator: "ContextDecorator_call func out =
      (case func (stop_database out) of
         (Inl e, out2) \<Rightarrow> (Inl e, start_database out2)
       | (Inr v, out2) \<Rightarrow> (Inr (Some v), start_database out2))"
    by (simp add: ContextDecorator_call_def with_stmt_def dbhandler_decorator_enter_def
        dbhandler_decorator_exit_def split: prod.splits sum.splits)
  have generator: "with_db_handler gblock out =
      (case gblock () (stop_database out) of
         (Inl e, out2) \<Rightarrow> (Inl e, Closed, start_database out2)
       | (Inr v, out2) \<Rightarrow> (Inr (Some v), Closed, start_database out2))"
    by (simp add: with_db_handler_def with_stmt_def enter_fresh on_stdout_def exit_raise
        exit_normal split: prod.splits sum.splits)
  show ?thesis
    by (simp add: manual decorator generator stop_database_def start_database_def run_def)
qed

theorem scoped_resource_bracketing_witness:
  "with_stmt DBHandler_enter DBHandler_exit
      (\<lambda>h out. (Inl (Exception ''backup failed'') :: py_error + unit,
                 run ''pg_dump database'' out)) []
     = (Inl (Exception ''backup failed''),
        [''systemctl stop postgresql.service'', ''pg_dump database'',
         ''systemctl start postgresql.service''])
   \<and> ContextDecorator_call
      (\<lambda>out. (Inl (Exception ''backup failed'') :: py_error + unit,
               run ''pg_dump database'' out)) []
     = (Inl (Exception ''backup failed''),
        [''systemctl stop postgresql.service'', ''pg_dump database'',
         ''systemctl start postgresql.service''])
   \<and> with_db_handler
      (\<lambda>h out. (Inl (Exception ''backup failed'') :: py_error + unit,
                 run ''pg_dump database'' out)) []
     = (Inl (Exception ''backup failed''), Closed,
        [''systemctl stop postgresql.service'', ''pg_dump database'',
         ''systemctl start postgresql.service''])
   \<and> with_db_handler (\<lambda>h. db_backup) []
     = (Inr (Some ()), Closed,
        [''systemctl stop postgresql.service'', ''pg_dump database'',
         ''systemctl start postgresql.service''])"
  using scoped_resource_bracketing
    [of "\<lambda>h out. (Inl (Exception ''backup failed'') :: py_error + unit,
                   run ''pg_dump database'' out)"
        "[]" "()" "[''systemctl stop postgresql.service'', ''pg_dump database'']"
        "Exception ''backup failed''"
        "\<lambda>out. (Inl (Exception ''backup failed'') :: py_error + unit,
                 run ''pg_dump database'' out)"
        "\<lambda>h out. (Inl (Exception ''backup failed'') :: py_error + unit,
                   run ''pg_dump database'' out)"]
    scoped_resource_bracketing
    [of "\<lambda>h. db_backup" "[]" "()" "[''systemctl stop postgresql.service'', ''pg_dump database'']"
        "Exception ''backup failed''" db_backup "\<lambda>h. db_backup"]
  by (simp add: run_def db_backup_def)

subsection \<open>Account ids from ARNs\<close>

lemma collect_loop_lazy:
  "collect_loop arns acc =
     (case collect_account_ids_from_arns_1 arns of
        Inl e \<Rightarrow> Inl e
      | Inr ids \<Rightarrow> Inr (acc \<union> set ids))"
  by (induction arns arbitrary: acc) (auto split: option.splits sum.splits)

lemma eager_is_set_of_lazy:
  "collect_account_ids_from_arns arns = map_sum id set (collect_account_ids_from_arns_1 arns)"
  by (simp add: collect_account_ids_from_arns_def collect_loop_lazy split: sum.splits)

lemma lazy_append:
  "collect_account_ids_from_arns_1 (xs @ ys) =
     (case collect_account_ids_from_arns_1 xs of
        Inl e \<Rightarrow> Inl e
      | Inr a \<Rightarrow> (case collect_account_ids_from_arns_1 ys of
                    Inl e \<Rightarrow> Inl e | Inr b \<Rightarrow> Inr (a @ b)))"
  by (induction xs) (auto split: option.splits sum.splits)

lemma lazy_skip:
  assumes "re_match ARN_REGEX arn = None"
  shows "collect_account_ids_from_arns_1 (xs @ arn # ys) = collect_account_ids_from_arns_1 (xs @ ys)"
proof -
  have skip: "collect_account_ids_from_arns_1 (arn # ys) = collect_account_ids_from_arns_1 ys"
    using assms by simp
  show ?thesis by (simp only: lazy_append skip)
qed

lemma eager_skip:
  assumes "re_match ARN_REGEX arn = None"
  shows "collect_account_ids_from_arns (xs @ arn # ys) = collect_account_ids_from_arns (xs @ ys)"
  using assms by (simp add: eager_is_set_of_lazy lazy_skip)

lemma match_literal_prefix:
  "match_here (literal l @ ns) pos s marks gs = Some r \<Longrightarrow> prefix l s"
  by (induction l arbitrary: pos s) (auto simp: literal_def split: list.splits if_splits)

lemma no_prefix_no_match:
  assumes "\<not> prefix ''arn:aws:'' arn"
  shows "re_match ARN_REGEX arn = None"
proof (rule ccontr)
  assume "re_match ARN_REGEX arn \<noteq> None"
  then obtain r where "re_match ARN_REGEX arn = Some r" by auto
  then have "match_here (literal ''arn:aws:'' @
       ([MaxRepeat 1 None (In [SetCategory Word, SetLiteral CHR ''-''])] @ literal '':''
     @ [MaxRepeat 0 None (In [SetCategory Word, SetLiteral CHR ''-''])] @ literal '':''
     @ [GroupOpen ''account_id'', MaxRepeat 12 (Some 12) (Category Digit),
        GroupClose ''account_id'']
     @ literal '':'' @ [MaxRepeat 1 None AnyChar, AtEnd])) 0 arn [] [] = Some r"
    by (simp add: re_match_def ARN_REGEX_def)
  then have "prefix ''arn:aws:'' arn" by (rule match_literal_prefix)
  with assms show False by simp
qed

lemma arns5:
  "generate_fake_arns ''s3'' ''us-east-1'' ''bucket'' ''test-bucket'' 5 =
    [''arn:aws:s3:us-east-1:100000000000:bucket/test-bucket-0'',
     ''arn:aws:s3:us-east-1:100000000001:bucket/test-bucket-1'',
     ''arn:aws:s3:us-east-1:100000000002:bucket/test-bucket-2'',
     ''arn:aws:s3:us-east-1:100000000003:bucket/test-bucket-3'',
     ''arn:aws:s3:us-east-1:100000000004:bucket/test-bucket-4'']"
  by (simp add: generate_fake_arns_def format_int_def digits.simps upto.simps)

lemma lazy5:
  "collect_account_ids_from_arns_1
    [''arn:aws:s3:us-east-1:100000000000:bucket/test-bucket-0'',
     ''arn:aws:s3:us-east-1:100000000001:bucket/test-bucket-1'',
     ''arn:aws:s3:us-east-1:100000000002:bucket/test-bucket-2'',
     ''arn:aws:s3:us-east-1:100000000003:bucket/test-bucket-3'',
     ''arn:aws:s3:us-east-1:100000000004:bucket/test-bucket-4'']
   = Inr [''100000000000'', ''100000000001'', ''100000000002'', ''100000000003'',
          ''100000000004'']"
  by (simp add: re_match_def ARN_REGEX_def literal_def is_word_def is_digit_def
      groupdict_getitem_def)

lemma ids5:
  "map (\<lambda>i. format_int (100000000000 + i)) [0 .. 4] =
     [''100000000000'', ''100000000001'', ''100000000002'', ''100000000003'', ''100000000004'']"
  by (simp add: format_int_def digits.simps upto.simps)

text \<open>
  Claim C4.  On the five identifiers that \<open>generate_fake_arns\<close> makes with its default
  parameters, the eager extraction returns the set, and the lazy extraction yields the
  list, of the decimal renderings of \<open>100000000000 + i\<close> for \<open>i\<close> from 0 to 4: five
  distinct strings of twelve digits.  On every input the eager result is the set of what
  the lazy generator yields; an identifier that does not match the pattern changes
  neither result; and an identifier that does not start with \<open>arn:aws:\<close> does not match.
\<close>

theorem account_id_extraction:
  "collect_account_ids_from_arns
      (generate_fake_arns ''s3'' ''us-east-1'' ''bucket'' ''test-bucket'' 5)
     = Inr (set (map (\<lambda>i. format_int (100000000000 + i)) [0 .. 4]))
   \<and> collect_account_ids_from_arns_1
      (generate_fake_arns ''s3'' ''us-east-1'' ''bucket'' ''test-bucket'' 5)
     = Inr (map (\<lambda>i. format_int (100000000000 + i)) [0 .. 4])
   \<and> map (\<lambda>i. format_int (100000000000 + i)) [0 .. 4]
     = [''100000000000'', ''100000000001'', ''100000000002'', ''100000000003'',
        ''100000000004'']
   \<and> card (set (map (\<lambda>i. format_int (100000000000 + i)) [0 .. 4])) = 5
   \<and> collect_account_ids_from_arns arns
     = map_sum id set (collect_account_ids_from_arns_1 arns)
   \<and> (re_match ARN_REGEX arn = None \<longrightarrow>
        collect_account_ids_from_arns (xs @ arn # ys) = collect_account_ids_from_arns (xs @ ys)
      \<and> collect_account_ids_from_arns_1 (xs @ arn # ys)
          = collect_account_ids_from_arns_1 (xs @ ys))
   \<and> (\<not> prefix ''arn:aws:'' arn \<longrightarrow> re_match ARN_REGEX arn = None)"
proof -
  have lazy: "collect_account_ids_from_arns_1
      (generate_fake_arns ''s3'' ''us-east-1'' ''bucket'' ''test-bucket'' 5)
     = Inr (map (\<lambda>i. format_int (100000000000 + i)) [0 .. 4])"
    by (simp only: arns5 lazy5 ids5)
  have eager: "collect_account_ids_from_arns
      (generate_fake_arns ''s3'' ''us-east-1'' ''bucket'' ''test-bucket'' 5)
     = Inr (set (map (\<lambda>i. format_int (100000000000 + i)) [0 .. 4]))"
    by (simp add: eager_is_set_of_lazy lazy)
  have card: "card (set (map (\<lambda>i. format_int (100000000000 + i)) [0 .. 4])) = 5"
    by (simp only: ids5) simp
  show ?thesis
    using lazy eager card ids5 eager_is_set_of_lazy [of arns] eager_skip [of arn xs ys]
      lazy_skip [of arn xs ys] no_prefix_no_match [of arn]
    by blast
qed

theorem account_id_extraction_witness:
  "collect_account_ids_from_arns
      ([''arn:aws:s3:us-east-1:100000000000:bucket/test-bucket-0'']
       @ ''s3:us-east-1:100000000009:bucket/test-bucket-9''
       # [''arn:aws:s3:us-east-1:100000000001:bucket/test-bucket-1''])
     = Inr {''100000000000'', ''100000000001''}
   \<and> collect_account_ids_from_arns_1
      ([''arn:aws:s3:us-east-1:100000000000:bucket/test-bucket-0'']
       @ ''s3:us-east-1:100000000009:bucket/test-bucket-9''
       # [''arn:aws:s3:us-east-1:100000000001:bucket/test-bucket-1''])
     = Inr [''100000000000'', ''100000000001'']"
proof -
  let ?bad = "''s3:us-east-1:100000000009:bucket/test-bucket-9''"
  let ?xs = "[''arn:aws:s3:us-east-1:100000000000:bucket/test-bucket-0'']"
  let ?ys = "[''arn:aws:s3:us-east-1:100000000001:bucket/test-bucket-1'']"
  note inst = account_id_extraction [of "?xs @ ?ys" ?bad ?xs ?ys]
  have "\<not> prefix ''arn:aws:'' ?bad" by simp
  with inst have none: "re_match ARN_REGEX ?bad = None" by blast
  with inst have skip:
    "collect_account_ids_from_arns (?xs @ ?bad # ?ys) = collect_account_ids_from_arns (?xs @ ?ys)"
    "collect_account_ids_from_arns_1 (?xs @ ?bad # ?ys)
       = collect_account_ids_from_arns_1 (?xs @ ?ys)"
    by blast+
  have lazy: "collect_account_ids_from_arns_1 (?xs @ ?ys)
       = Inr [''100000000000'', ''100000000001'']"
    by (simp add: re_match_def ARN_REGEX_def literal_def is_word_def is_digit_def
        groupdict_getitem_def)
  from inst have "collect_account_ids_from_arns (?xs @ ?ys)
       = map_sum id set (collect_account_ids_from_arns_1 (?xs @ ?ys))" by blast
  then have eager: "collect_account_ids_from_arns (?xs @ ?ys)
       = Inr {''100000000000'', ''100000000001''}"
    by (simp only: lazy) simp
  show ?thesis by (simp only: skip lazy eager)
qed

end
